theory Spec2Isabelle
  imports Complex_Main
begin

section \<open>The Python operations the server relies on\<close>

text \<open>
  The server (\<^verbatim>\<open>Server.py\<close>) is Python. Its integers are unbounded (\<^typ>\<open>int\<close>), its
  exceptions are values of \<open>error\<close>, and a list index follows Python's rule: an index
  \<open>i\<close> with \<open>-n \<le> i < 0\<close> counts from the end, anything outside \<open>-n \<le> i < n\<close> raises
  \<^verbatim>\<open>IndexError\<close>.
\<close>

datatype error = IndexError | KeyError | TypeError | ValueError

definition py_index :: "nat \<Rightarrow> int \<Rightarrow> nat option" where
  "py_index n i =
     (if 0 \<le> i \<and> i < int n then Some (nat i)
      else if - int n \<le> i \<and> i < 0 then Some (nat (int n + i))
      else None)"

definition py_getitem :: "'a list \<Rightarrow> int \<Rightarrow> error + 'a" where
  "py_getitem xs i =
     (case py_index (length xs) i of None \<Rightarrow> Inl IndexError | Some k \<Rightarrow> Inr (xs ! k))"

text \<open>
  One maze layer is a list of rows of one-character cell codes: \<open>#\<close> wall, space open,
  \<open>S\<close> start, \<open>E\<close> end, \<open>L\<close> up-teleporter, \<open>l\<close> down-teleporter.
  \<open>get_cell m r c\<close> is the read \<^verbatim>\<open>m[r][c]\<close>, \<open>set_cell m r c v\<close> the write
  \<^verbatim>\<open>m[r][c] = v\<close>, returning the updated layer.
\<close>

type_synonym maze = "char list list"

definition get_cell :: "maze \<Rightarrow> int \<Rightarrow> int \<Rightarrow> error + char" where
  "get_cell m r c = (case py_getitem m r of Inl e \<Rightarrow> Inl e | Inr row \<Rightarrow> py_getitem row c)"

definition set_cell :: "maze \<Rightarrow> int \<Rightarrow> int \<Rightarrow> char \<Rightarrow> error + maze" where
  "set_cell m r c v =
     (case py_index (length m) r of
        None \<Rightarrow> Inl IndexError
      | Some i \<Rightarrow>
          (case py_index (length (m ! i)) c of
             None \<Rightarrow> Inl IndexError
           | Some j \<Rightarrow> Inr (m[i := (m ! i)[j := v]])))"

text \<open>
  The module \<^verbatim>\<open>random\<close> is not part of the repository. Its state is modelled as the
  sequence of raw numbers it will hand out: every call takes the next one (an exhausted
  sequence keeps giving 0). A theorem that holds for every such sequence holds for every
  run of the program.
  \<^item> \<open>choice\<close> picks an element of a non-empty sequence (\<^verbatim>\<open>IndexError\<close> on an empty one);
  \<^item> \<open>randrange start stop step\<close>, for a positive step, picks one of
    \<open>start, start + step, \<dots>\<close> below \<open>stop\<close> (\<^verbatim>\<open>ValueError\<close> when there is none);
  \<^item> \<open>randint a b\<close> picks one of \<open>a, \<dots>, b\<close>;
  \<^item> \<open>shuffle\<close> is CPython's exchange loop: for \<open>i\<close> from the last index down to 1, exchange
    \<open>x[i]\<close> with \<open>x[j]\<close> for a random \<open>j \<le> i\<close>.
\<close>

type_synonym rng = "nat list"

fun draw :: "rng \<Rightarrow> nat \<times> rng" where
  "draw [] = (0, [])"
| "draw (k # ks) = (k, ks)"

definition choice :: "'a list \<Rightarrow> rng \<Rightarrow> error + ('a \<times> rng)" where
  "choice xs g =
     (if xs = [] then Inl IndexError
      else (case draw g of (k, g') \<Rightarrow> Inr (xs ! (k mod length xs), g')))"

definition randrange :: "int \<Rightarrow> int \<Rightarrow> int \<Rightarrow> rng \<Rightarrow> error + (int \<times> rng)" where
  "randrange start stop step g =
     (let n = (stop - start + step - 1) div step
      in if n \<le> 0 then Inl ValueError
         else (case draw g of (k, g') \<Rightarrow> Inr (start + step * (int k mod n), g')))"

definition randint :: "int \<Rightarrow> int \<Rightarrow> rng \<Rightarrow> error + (int \<times> rng)" where
  "randint a b g = randrange a (b + 1) 1 g"

fun shuffle_from :: "nat \<Rightarrow> 'a list \<Rightarrow> rng \<Rightarrow> 'a list \<times> rng" where
  "shuffle_from 0 xs g = (xs, g)"
| "shuffle_from (Suc i) xs g =
     (case draw g of
        (k, g') \<Rightarrow>
          (let j = k mod (Suc (Suc i))
           in shuffle_from i (xs[Suc i := xs ! j, j := xs ! Suc i]) g'))"

definition shuffle :: "'a list \<Rightarrow> rng \<Rightarrow> 'a list \<times> rng" where
  "shuffle xs g = shuffle_from (length xs - 1) xs g"

section \<open>MazeGenerator\<close>

text \<open>
  The fields of the class. \<open>teleporter_coords\<close> is the dictionary from a layer to the
  teleporters placed on it, each \<open>(r, c, type)\<close>; \<open>start_coords\<close> and \<open>end_coords\<close> are
  \<^verbatim>\<open>None\<close> until \<open>generate\<close> sets them.
\<close>

type_synonym teleporter = "int \<times> int \<times> char"

record maze_generator =
  width :: int
  height :: int
  num_layers :: int
  mazes :: "maze list"
  start_coords :: "(int \<times> int) option"
  end_coords :: "(int \<times> int) option"
  teleporter_coords :: "int \<rightharpoonup> teleporter list"
  all_open_spots_layer0 :: "(int \<times> int) list"

text \<open>\<^verbatim>\<open>__init__\<close>: an even width or height is raised to the next odd number.\<close>

definition MazeGenerator :: "int \<Rightarrow> int \<Rightarrow> int \<Rightarrow> maze_generator" where
  "MazeGenerator w h n =
     \<lparr> width = (if w mod 2 = 1 then w else w + 1),
       height = (if h mod 2 = 1 then h else h + 1),
       num_layers = n,
       mazes = [],
       start_coords = None,
       end_coords = None,
       teleporter_coords = Map.empty,
       all_open_spots_layer0 = [] \<rparr>"

definition is_valid :: "maze_generator \<Rightarrow> int \<Rightarrow> int \<Rightarrow> bool" where
  "is_valid self r c = (0 \<le> r \<and> r < height self \<and> 0 \<le> c \<and> c < width self)"

text \<open>
  \<^verbatim>\<open>_carve_path\<close> marks its cell open, shuffles the four directions and runs the loop
  over them; \<open>carve_dirs\<close> is that loop, on the directions still to visit. The maze is
  mutated in place by the source and passed through here, with the random state.
\<close>

function carve_path :: "maze_generator \<Rightarrow> int \<Rightarrow> int \<Rightarrow> maze \<Rightarrow> rng \<Rightarrow> error + (maze \<times> rng)"
  and carve_dirs ::
    "maze_generator \<Rightarrow> int \<Rightarrow> int \<Rightarrow> (int \<times> int) list \<Rightarrow> maze \<Rightarrow> rng \<Rightarrow> error + (maze \<times> rng)"
where
  "carve_path self r c maze g =
     (case set_cell maze r c CHR '' '' of
        Inl e \<Rightarrow> Inl e
      | Inr maze1 \<Rightarrow>
          (case shuffle [(0, 2), (0, -2), (2, 0), (-2, 0)] g of
             (directions, g1) \<Rightarrow> carve_dirs self r c directions maze1 g1))"
| "carve_dirs self r c [] maze g = Inr (maze, g)"
| "carve_dirs self r c ((dr, dc) # ds) maze g =
     (if is_valid self (r + dr) (c + dc) then
        (case get_cell maze (r + dr) (c + dc) of
           Inl e \<Rightarrow> Inl e
         | Inr ch \<Rightarrow>
             if ch = CHR ''#'' then
               (case set_cell maze (r + dr div 2) (c + dc div 2) CHR '' '' of
                  Inl e \<Rightarrow> Inl e
                | Inr maze1 \<Rightarrow>
                    (case carve_path self (r + dr) (c + dc) maze1 g of
                       Inl e \<Rightarrow> Inl e
                     | Inr (maze2, g2) \<Rightarrow> carve_dirs self r c ds maze2 g2))
             else carve_dirs self r c ds maze g)
      else carve_dirs self r c ds maze g)"
  by pat_completeness auto

text \<open>
  The recursion ends because every call of \<open>carve_path\<close> from the loop opens a cell that
  was a wall, and no cell ever becomes a wall again: the number of walls decreases.
\<close>

definition walls :: "maze \<Rightarrow> nat" where
  "walls m = length (filter (\<lambda>ch. ch = CHR ''#'') (concat m))"

lemma filter_update_count:
  "j < length xs \<Longrightarrow>
     length (filter P (xs[j := v])) + (if P (xs ! j) then 1 else 0) =
     length (filter P xs) + (if P v then 1 else 0)"
proof (induction xs arbitrary: j)
  case Nil
  then show ?case by simp
next
  case (Cons a xs)
  then show ?case by (cases j) auto
qed

lemma concat_update_count:
  "i < length m \<Longrightarrow>
     length (filter P (concat (m[i := row]))) + length (filter P (m ! i)) =
     length (filter P (concat m)) + length (filter P row)"
proof (induction m arbitrary: i)
  case Nil
  then show ?case by simp
next
  case (Cons a m)
  then show ?case by (cases i) auto
qed

lemma walls_update:
  assumes "i < length m" "j < length (m ! i)"
  shows "walls (m[i := (m ! i)[j := v]]) + (if m ! i ! j = CHR ''#'' then 1 else 0) =
         walls m + (if v = CHR ''#'' then 1 else 0)"
  using concat_update_count[OF assms(1), of "\<lambda>ch. ch = CHR ''#''" "(m ! i)[j := v]"]
        filter_update_count[OF assms(2), of "\<lambda>ch. ch = CHR ''#''" v]
  by (simp add: walls_def split: if_splits)

lemma py_index_less: "py_index n i = Some k \<Longrightarrow> k < n"
  by (auto simp: py_index_def split: if_splits)

lemma set_cell_walls_le:
  "set_cell m r c CHR '' '' = Inr m' \<Longrightarrow> walls m' \<le> walls m"
  using walls_update[of _ m _ "CHR '' ''"]
  by (fastforce simp: set_cell_def split: option.splits dest: py_index_less)

lemma set_cell_walls_less:
  "get_cell m r c = Inr CHR ''#'' \<Longrightarrow> set_cell m r c CHR '' '' = Inr m' \<Longrightarrow> walls m' < walls m"
  using walls_update[of _ m _ "CHR '' ''"]
  by (fastforce simp: set_cell_def get_cell_def py_getitem_def split: option.splits
      dest: py_index_less)

lemma set_cell_keeps_or_opens:
  assumes "set_cell m p q CHR '' '' = Inr m1" "get_cell m r c = Inr CHR ''#''"
  shows "get_cell m1 r c = Inr CHR ''#'' \<or> walls m1 < walls m"
proof -
  from assms(1) obtain i j where ij: "py_index (length m) p = Some i"
      "py_index (length (m ! i)) q = Some j" "m1 = m[i := (m ! i)[j := CHR '' '']]"
    by (auto simp: set_cell_def split: option.splits)
  from assms(2) obtain i' j' where ij': "py_index (length m) r = Some i'"
      "py_index (length (m ! i')) c = Some j'" "m ! i' ! j' = CHR ''#''"
    by (auto simp: get_cell_def py_getitem_def split: option.splits)
  have b: "i < length m" "j < length (m ! i)" "i' < length m" "j' < length (m ! i')"
    using ij ij' by (auto dest: py_index_less)
  show ?thesis
  proof (cases "i = i' \<and> j = j'")
    case True
    then have "get_cell m p q = Inr CHR ''#''"
      using ij ij' by (simp add: get_cell_def py_getitem_def)
    then show ?thesis using assms(1) set_cell_walls_less by blast
  next
    case False
    then have "get_cell m1 r c = Inr CHR ''#''"
      using ij ij' b by (auto simp: get_cell_def py_getitem_def nth_list_update)
    then show ?thesis ..
  qed
qed

lemma carve_step_decreases:
  assumes "get_cell m r c = Inr CHR ''#''" "set_cell m p q CHR '' '' = Inr m1"
    "set_cell m1 r c CHR '' '' = Inr m2"
  shows "walls m2 < walls m"
  using set_cell_keeps_or_opens[OF assms(2) assms(1)] set_cell_walls_less[OF _ assms(3)]
    set_cell_walls_le[OF assms(2)] set_cell_walls_le[OF assms(3)]
  by auto

lemma get_cell_wall_pos: "get_cell m r c = Inr CHR ''#'' \<Longrightarrow> 0 < walls m"
proof -
  assume "get_cell m r c = Inr CHR ''#''"
  then obtain i j where "i < length m" "j < length (m ! i)" "m ! i ! j = CHR ''#''"
    by (auto simp: get_cell_def py_getitem_def split: option.splits dest: py_index_less)
  then have "CHR ''#'' \<in> set (concat m)"
    by (metis nth_mem set_concat UN_I)
  then show ?thesis
    by (auto simp: walls_def filter_empty_conv)
qed

lemma carve_walls_mono_dom:
  "carve_path_carve_dirs_dom (Inl (self, r, c, m, g)) \<Longrightarrow>
     carve_path self r c m g = Inr (m', g') \<Longrightarrow> walls m' \<le> walls m"
  "carve_path_carve_dirs_dom (Inr (self, r, c, ds, m, g)) \<Longrightarrow>
     carve_dirs self r c ds m g = Inr (m', g') \<Longrightarrow> walls m' \<le> walls m"
proof (induction self r c m g and self r c ds m g arbitrary: m' g' and m' g'
    rule: carve_path_carve_dirs.pinduct)
  case (1 self r c maze g)
  then show ?case
    by (auto simp: carve_path.psimps split: sum.splits prod.splits
        dest!: set_cell_walls_le) fastforce
next
  case (2 self r c maze g)
  then show ?case by (simp add: carve_dirs.psimps)
next
  case (3 self r c dr dc ds maze g)
  show ?case
  proof (cases "is_valid self (r + dr) (c + dc) \<and> get_cell maze (r + dr) (c + dc) = Inr CHR ''#''")
    case True
    with 3(6) 3(1) obtain maze1 maze2 g2 where
      s: "set_cell maze (r + dr div 2) (c + dc div 2) CHR '' '' = Inr maze1"
      and p: "carve_path self (r + dr) (c + dc) maze1 g = Inr (maze2, g2)"
      and d: "carve_dirs self r c ds maze2 g2 = Inr (m', g')"
      by (auto simp: carve_dirs.psimps split: sum.splits prod.splits)
    have "walls maze2 \<le> walls maze1" using 3(2) True s p by blast
    moreover have "walls m' \<le> walls maze2" using 3(3)[OF _ _ _ s p] True d by auto
    ultimately show ?thesis using set_cell_walls_le[OF s] by linarith
  next
    case False
    with 3(6) 3(1) have e: "carve_dirs self r c ds maze g = Inr (m', g')"
      and v: "is_valid self (r + dr) (c + dc) \<Longrightarrow>
                \<exists>b. get_cell maze (r + dr) (c + dc) = Inr b \<and> b \<noteq> CHR ''#''"
      by (auto simp: carve_dirs.psimps split: sum.splits if_splits)
    show ?thesis
    proof (cases "is_valid self (r + dr) (c + dc)")
      case True
      with v e 3(4) show ?thesis by blast
    next
      case False
      with e 3(5) show ?thesis by blast
    qed
  qed
qed

termination carve_path
proof (relation "measures
    [\<lambda>x. case x of
        Inl (self, r, c, m, g) \<Rightarrow>
          (case set_cell m r c CHR '' '' of Inr m' \<Rightarrow> walls m' | Inl e \<Rightarrow> 0)
      | Inr (self, r, c, ds, m, g) \<Rightarrow> walls m,
     \<lambda>x. case x of Inl a \<Rightarrow> 1 | Inr b \<Rightarrow> 0,
     \<lambda>x. case x of Inl a \<Rightarrow> 0 | Inr (self, r, c, ds, m, g) \<Rightarrow> length ds]",
    goal_cases)
  case 1
  then show ?case by simp
next
  case (2 self r c maze g maze1 directions g1)
  then show ?case by simp
next
  case (3 self r c dr dc ds maze g ch maze1)
  then show ?case
    by (auto simp: carve_step_decreases get_cell_wall_pos split: sum.splits)
next
  case (4 self r c dr dc ds maze g ch maze1 res maze2 g2)
  then show ?case
    using carve_walls_mono_dom(1)[of self "r + dr" "c + dc" maze1 g maze2 g2]
      set_cell_walls_le[of maze "r + dr div 2" "c + dc div 2" maze1]
    by auto
next
  case 5
  then show ?case by simp
next
  case 6
  then show ?case by simp
qed

declare carve_path.simps [simp del]


text \<open>
  The scan \<^verbatim>\<open>for r in range(h): for c in range(w): if maze[r][c] == ' ': spots.append((r, c))\<close>,
  which \<open>generate\<close> runs four times and \<open>get_random_open_position_on_layer\<close> once.
\<close>

definition grid_cells :: "int \<Rightarrow> int \<Rightarrow> (int \<times> int) list" where
  "grid_cells h w = [(r, c). r \<leftarrow> [0..h - 1], c \<leftarrow> [0..w - 1]]"

fun collect_open :: "maze \<Rightarrow> (int \<times> int) list \<Rightarrow> error + (int \<times> int) list" where
  "collect_open maze [] = Inr []"
| "collect_open maze ((r, c) # rest) =
     (case get_cell maze r c of
        Inl e \<Rightarrow> Inl e
      | Inr ch \<Rightarrow>
          (case collect_open maze rest of
             Inl e \<Rightarrow> Inl e
           | Inr spots \<Rightarrow> Inr (if ch = CHR '' '' then (r, c) # spots else spots)))"

definition open_spots :: "maze \<Rightarrow> int \<Rightarrow> int \<Rightarrow> error + (int \<times> int) list" where
  "open_spots maze h w = collect_open maze (grid_cells h w)"

text \<open>The first loop of \<open>generate\<close>: one carved layer per iteration, \<open>n\<close> iterations to go.\<close>

fun carve_layers :: "maze_generator \<Rightarrow> nat \<Rightarrow> maze list \<Rightarrow> rng \<Rightarrow> error + (maze list \<times> rng)" where
  "carve_layers self 0 ms g = Inr (ms, g)"
| "carve_layers self (Suc n) ms g =
     (let maze = replicate (nat (height self)) (replicate (nat (width self)) CHR ''#'')
      in case randrange 1 (height self) 2 g of
           Inl e \<Rightarrow> Inl e
         | Inr (start_r, g1) \<Rightarrow>
             (case randrange 1 (width self) 2 g1 of
                Inl e \<Rightarrow> Inl e
              | Inr (start_c, g2) \<Rightarrow>
                  (case carve_path self start_r start_c maze g2 of
                     Inl e \<Rightarrow> Inl e
                   | Inr (maze', g3) \<Rightarrow> carve_layers self n (ms @ [maze']) g3)))"

text \<open>
  Relabelling one random open cell of layer \<open>l\<close>. The layer is \<^verbatim>\<open>self.mazes[l]\<close>, mutated in
  place. When the layer has no open cell the source prints a warning and goes on.
\<close>

definition set_layer :: "maze_generator \<Rightarrow> int \<Rightarrow> maze \<Rightarrow> maze_generator" where
  "set_layer self l m =
     (case py_index (length (mazes self)) l of
        None \<Rightarrow> self
      | Some k \<Rightarrow> self\<lparr>mazes := (mazes self)[k := m]\<rparr>)"

definition place_start :: "maze_generator \<Rightarrow> rng \<Rightarrow> error + (maze_generator \<times> rng)" where
  "place_start self g =
     (case py_getitem (mazes self) 0 of
        Inl e \<Rightarrow> Inl e
      | Inr maze_layer_0 \<Rightarrow>
          (case open_spots maze_layer_0 (height self) (width self) of
             Inl e \<Rightarrow> Inl e
           | Inr spots \<Rightarrow>
               (let self1 = self\<lparr>all_open_spots_layer0 := spots\<rparr>
                in if spots \<noteq> [] then
                     (case choice spots g of
                        Inl e \<Rightarrow> Inl e
                      | Inr ((sr, sc), g1) \<Rightarrow>
                          (case set_cell maze_layer_0 sr sc CHR ''S'' of
                             Inl e \<Rightarrow> Inl e
                           | Inr m' \<Rightarrow>
                               Inr ((set_layer self1 0 m')\<lparr>start_coords := Some (sr, sc)\<rparr>, g1)))
                   else Inr (self1\<lparr>start_coords := Some (1, 1)\<rparr>, g))))"

definition place_end :: "maze_generator \<Rightarrow> rng \<Rightarrow> error + (maze_generator \<times> rng)" where
  "place_end self g =
     (case py_getitem (mazes self) (num_layers self - 1) of
        Inl e \<Rightarrow> Inl e
      | Inr maze_last_layer \<Rightarrow>
          (case open_spots maze_last_layer (height self) (width self) of
             Inl e \<Rightarrow> Inl e
           | Inr all_open_spots_last_layer \<Rightarrow>
               if all_open_spots_last_layer \<noteq> [] then
                 (case choice all_open_spots_last_layer g of
                    Inl e \<Rightarrow> Inl e
                  | Inr ((er, ec), g1) \<Rightarrow>
                      (case set_cell maze_last_layer er ec CHR ''E'' of
                         Inl e \<Rightarrow> Inl e
                       | Inr m' \<Rightarrow>
                           Inr ((set_layer self (num_layers self - 1) m')
                                  \<lparr>end_coords := Some (er, ec)\<rparr>, g1)))
               else Inr (self\<lparr>end_coords := Some (1, 1)\<rparr>, g)))"

definition place_teleporter ::
    "maze_generator \<Rightarrow> int \<Rightarrow> char \<Rightarrow> rng \<Rightarrow> error + (maze_generator \<times> rng)" where
  "place_teleporter self l ty g =
     (case py_getitem (mazes self) l of
        Inl e \<Rightarrow> Inl e
      | Inr layer_maze \<Rightarrow>
          (case open_spots layer_maze (height self) (width self) of
             Inl e \<Rightarrow> Inl e
           | Inr current_layer_open_spots \<Rightarrow>
               if current_layer_open_spots \<noteq> [] then
                 (case choice current_layer_open_spots g of
                    Inl e \<Rightarrow> Inl e
                  | Inr ((tr, tc), g1) \<Rightarrow>
                      (case set_cell layer_maze tr tc ty of
                         Inl e \<Rightarrow> Inl e
                       | Inr m' \<Rightarrow>
                           (case teleporter_coords self l of
                              None \<Rightarrow> Inl KeyError
                            | Some ts \<Rightarrow>
                                Inr ((set_layer self l m')
                                       \<lparr>teleporter_coords :=
                                          (teleporter_coords self)(l \<mapsto> ts @ [(tr, tc, ty)])\<rparr>,
                                     g1))))
               else Inr (self, g)))"

text \<open>The body of the loop \<^verbatim>\<open>for l in range(self.num_layers)\<close>, and the loop.\<close>

definition teleporter_step :: "maze_generator \<Rightarrow> int \<Rightarrow> rng \<Rightarrow> error + (maze_generator \<times> rng)" where
  "teleporter_step self l g =
     (let self1 = self\<lparr>teleporter_coords := (teleporter_coords self)(l \<mapsto> [])\<rparr>
      in case (if l < num_layers self - 1 then place_teleporter self1 l CHR ''L'' g
               else Inr (self1, g)) of
           Inl e \<Rightarrow> Inl e
         | Inr (self2, g2) \<Rightarrow>
             if l > 0 then place_teleporter self2 l CHR ''l'' g2 else Inr (self2, g2))"

fun place_teleporters ::
    "maze_generator \<Rightarrow> int list \<Rightarrow> rng \<Rightarrow> error + (maze_generator \<times> rng)" where
  "place_teleporters self [] g = Inr (self, g)"
| "place_teleporters self (l # ls) g =
     (case teleporter_step self l g of
        Inl e \<Rightarrow> Inl e
      | Inr (self', g') \<Rightarrow> place_teleporters self' ls g')"

text \<open>
  \<open>generate\<close>. The source returns \<^verbatim>\<open>self.mazes\<close>; here the generator itself is returned,
  with the random state, and \<open>mazes\<close> of it is that value.
\<close>

definition generate :: "maze_generator \<Rightarrow> rng \<Rightarrow> error + (maze_generator \<times> rng)" where
  "generate self g =
     (case carve_layers self (nat (num_layers self)) [] g of
        Inl e \<Rightarrow> Inl e
      | Inr (ms, g1) \<Rightarrow>
          (case place_start (self\<lparr>mazes := ms\<rparr>) g1 of
             Inl e \<Rightarrow> Inl e
           | Inr (self2, g2) \<Rightarrow>
               (case place_end self2 g2 of
                  Inl e \<Rightarrow> Inl e
                | Inr (self3, g3) \<Rightarrow>
                    place_teleporters (self3\<lparr>teleporter_coords := Map.empty\<rparr>)
                      [0..num_layers self - 1] g3)))"

section \<open>Game constants and the coordinate mapping\<close>

definition MAZE_WIDTH :: int where "MAZE_WIDTH = 17"
definition MAZE_HEIGHT :: int where "MAZE_HEIGHT = 17"
definition NUM_MAZE_LAYERS :: int where "NUM_MAZE_LAYERS = 2"
definition BLOCK_SIZE :: int where "BLOCK_SIZE = 5"
definition WALL_HEIGHT :: int where "WALL_HEIGHT = 6"
definition MAX_HEALTH :: int where "MAX_HEALTH = 100"
definition BULLET_DAMAGE :: int where "BULLET_DAMAGE = 10"

text \<open>
  World coordinates are Python floats, modelled as rationals: rounding, overflow, NaN and
  the infinities are outside the model. On the coordinates of grid cells the two agree:
  every intermediate value is a multiple of one half far below \<open>2^53\<close>, which binary
  floating point represents and computes exactly.
  The dictionary \<^verbatim>\<open>{"x": .., "y": .., "z": ..}\<close> is the record \<open>vec3\<close>, the dictionary
  \<^verbatim>\<open>{"r": .., "c": ..}\<close> a pair (row, column).
\<close>

record vec3 =
  coord_x :: rat
  coord_y :: rat
  coord_z :: rat

definition grid_to_world_coords :: "int \<Rightarrow> int \<Rightarrow> int \<Rightarrow> vec3" where
  "grid_to_world_coords grid_row grid_col layer =
     (let world_x = of_int (grid_col * BLOCK_SIZE) - of_int (MAZE_WIDTH * BLOCK_SIZE) / 2
                      + of_int BLOCK_SIZE / 2;
          world_z = of_int (grid_row * BLOCK_SIZE) - of_int (MAZE_HEIGHT * BLOCK_SIZE) / 2
                      + of_int BLOCK_SIZE / 2;
          world_y = of_int (layer * WALL_HEIGHT)
      in \<lparr> coord_x = world_x, coord_y = world_y, coord_z = world_z \<rparr>)"

definition world_to_grid_coords :: "rat \<Rightarrow> rat \<Rightarrow> int \<times> int" where
  "world_to_grid_coords world_x world_z =
     (let grid_col = \<lfloor>(world_x + of_int (MAZE_WIDTH * BLOCK_SIZE) / 2 - of_int BLOCK_SIZE / 2)
                        / of_int BLOCK_SIZE\<rfloor>;
          grid_row = \<lfloor>(world_z + of_int (MAZE_HEIGHT * BLOCK_SIZE) / 2 - of_int BLOCK_SIZE / 2)
                        / of_int BLOCK_SIZE\<rfloor>
      in (grid_row, grid_col))"


section \<open>Messages and the global game state\<close>

text \<open>
  A decoded client message is a JSON value (\<^verbatim>\<open>json.loads\<close> is outside the repository). The
  conversions \<^verbatim>\<open>float(v)\<close> and \<^verbatim>\<open>int(v)\<close> raise \<^verbatim>\<open>TypeError\<close> on \<^verbatim>\<open>None\<close>, a list or a
  dictionary; how they read a string is Python's business and is taken as a parameter
  (\<open>py_runtime\<close>): \<open>None\<close> stands for \<^verbatim>\<open>ValueError\<close>. A Python \<^verbatim>\<open>bool\<close> is an \<^verbatim>\<open>int\<close>
  (\<^verbatim>\<open>True == 1\<close>).
\<close>

datatype json =
    JNull
  | JBool bool
  | JInt int
  | JFloat rat
  | JStr string
  | JArr "json list"
  | JObj "(string \<times> json) list"

record py_runtime =
  float_of_str :: "string \<Rightarrow> rat option"
  int_of_str :: "string \<Rightarrow> int option"

definition py_float :: "py_runtime \<Rightarrow> json \<Rightarrow> error + rat" where
  "py_float rt v =
     (case v of
        JInt i \<Rightarrow> Inr (of_int i)
      | JFloat q \<Rightarrow> Inr q
      | JBool b \<Rightarrow> Inr (if b then 1 else 0)
      | JStr s \<Rightarrow> (case float_of_str rt s of None \<Rightarrow> Inl ValueError | Some q \<Rightarrow> Inr q)
      | _ \<Rightarrow> Inl TypeError)"

definition py_int :: "py_runtime \<Rightarrow> json \<Rightarrow> error + int" where
  "py_int rt v =
     (case v of
        JInt i \<Rightarrow> Inr i
      | JFloat q \<Rightarrow> Inr (if 0 \<le> q then \<lfloor>q\<rfloor> else \<lceil>q\<rceil>)
      | JBool b \<Rightarrow> Inr (if b then 1 else 0)
      | JStr s \<Rightarrow> (case int_of_str rt s of None \<Rightarrow> Inl ValueError | Some i \<Rightarrow> Inr i)
      | _ \<Rightarrow> Inl TypeError)"

text \<open>\<^verbatim>\<open>v[k]\<close> for a string key \<open>k\<close>, and the truth value of \<^verbatim>\<open>v\<close> in a condition.\<close>

definition py_subscript :: "json \<Rightarrow> string \<Rightarrow> error + json" where
  "py_subscript v k =
     (case v of
        JObj d \<Rightarrow> (case map_of d k of None \<Rightarrow> Inl KeyError | Some x \<Rightarrow> Inr x)
      | _ \<Rightarrow> Inl TypeError)"

definition truthy :: "json \<Rightarrow> bool" where
  "truthy v =
     (case v of
        JNull \<Rightarrow> False
      | JBool b \<Rightarrow> b
      | JInt i \<Rightarrow> i \<noteq> 0
      | JFloat q \<Rightarrow> q \<noteq> 0
      | JStr s \<Rightarrow> s \<noteq> []
      | JArr xs \<Rightarrow> xs \<noteq> []
      | JObj d \<Rightarrow> d \<noteq> [])"

text \<open>\<^verbatim>\<open>str(n)\<close> of an integer, and \<^verbatim>\<open>"%06x" % n\<close>.\<close>

fun dec_digits :: "nat \<Rightarrow> string" where
  "dec_digits n =
     (if n < 10 then [''0123456789'' ! n]
      else dec_digits (n div 10) @ [''0123456789'' ! (n mod 10)])"

declare dec_digits.simps [simp del]

definition str_int :: "int \<Rightarrow> string" where
  "str_int i = (if i < 0 then CHR ''-'' # dec_digits (nat (- i)) else dec_digits (nat i))"

fun hex_digits :: "nat \<Rightarrow> string" where
  "hex_digits n =
     (if n < 16 then [''0123456789abcdef'' ! n]
      else hex_digits (n div 16) @ [''0123456789abcdef'' ! (n mod 16)])"

declare hex_digits.simps [simp del]

definition hex06 :: "int \<Rightarrow> string" where
  "hex06 i = (let h = hex_digits (nat i) in replicate (6 - length h) CHR ''0'' @ h)"

section \<open>Players, bullets, broadcasts\<close>

text \<open>
  A connection (the websocket object) is a number. \<^verbatim>\<open>PLAYERS\<close> is the dictionary from
  connections to player dictionaries, kept in insertion order as Python keeps it.
  A bullet's \<^verbatim>\<open>creation_time\<close> (the event loop's clock) is not modelled; nothing reads it.
\<close>

type_synonym conn = nat

record player =
  player_id :: string
  position :: vec3
  rotation :: vec3
  layer :: int
  health :: int
  score :: int
  color :: string

record bullet =
  bullet_id :: string
  shooter_id :: string
  bullet_position :: vec3
  bullet_direction :: vec3
  bullet_layer :: int

text \<open>The messages the server sends, one constructor per \<^verbatim>\<open>"type"\<close>, the fields in the
  order of the source's dictionary literal.\<close>

datatype message =
    Init string "player list" "maze list" vec3 vec3
  | Player_connected string vec3 vec3 int int int string
  | Player_disconnected string
  | Player_update string vec3 vec3 int
  | Bullet_fired string string vec3 vec3 int
  | Score_update string int
  | Health_update string int int
  | Player_defeated string int "string option"
  | Player_respawned string vec3 int int int string vec3
  | Game_win string

fun msg_type :: "message \<Rightarrow> string" where
  "msg_type (Init a b c d e) = ''init''"
| "msg_type (Player_connected a b c d e f g) = ''player_connected''"
| "msg_type (Player_disconnected a) = ''player_disconnected''"
| "msg_type (Player_update a b c d) = ''player_update''"
| "msg_type (Bullet_fired a b c d e) = ''bullet_fired''"
| "msg_type (Score_update a b) = ''score_update''"
| "msg_type (Health_update a b c) = ''health_update''"
| "msg_type (Player_defeated a b c) = ''player_defeated''"
| "msg_type (Player_respawned a b c d e f g) = ''player_respawned''"
| "msg_type (Game_win a) = ''game_win''"

text \<open>
  The module's globals. \<open>random_state\<close> is the state of \<^verbatim>\<open>random\<close>; \<open>outbox\<close> records, in
  order, every message handed to \<^verbatim>\<open>websocket.send\<close> with the connections it went to.
  \<^verbatim>\<open>GENERATED_MAZE_DATA\<close>, \<^verbatim>\<open>START_GRID_COORDS\<close> and \<^verbatim>\<open>END_GRID_COORDS\<close> are the generator's
  \<open>mazes\<close>, \<open>start_coords\<close> and \<open>end_coords\<close>.
\<close>

record server =
  PLAYERS :: "(conn \<times> player) list"
  BULLETS :: "bullet list"
  NEXT_PLAYER_ID :: int
  NEXT_BULLET_ID :: int
  MAZE_GENERATOR :: maze_generator
  INITIAL_START_POSITION :: vec3
  random_state :: rng
  outbox :: "(message \<times> conn list) list"

definition GENERATED_MAZE_DATA :: "server \<Rightarrow> maze list" where
  "GENERATED_MAZE_DATA s = mazes (MAZE_GENERATOR s)"

definition START_GRID_COORDS :: "server \<Rightarrow> (int \<times> int) option" where
  "START_GRID_COORDS s = start_coords (MAZE_GENERATOR s)"

definition END_GRID_COORDS :: "server \<Rightarrow> (int \<times> int) option" where
  "END_GRID_COORDS s = end_coords (MAZE_GENERATOR s)"

text \<open>Dictionary assignment \<^verbatim>\<open>d[k] = v\<close> and deletion \<^verbatim>\<open>del d[k]\<close> on an ordered dictionary.\<close>

fun dict_set :: "'k \<Rightarrow> 'v \<Rightarrow> ('k \<times> 'v) list \<Rightarrow> ('k \<times> 'v) list" where
  "dict_set k v [] = [(k, v)]"
| "dict_set k v ((k', v') # kvs) =
     (if k' = k then (k, v) # kvs else (k', v') # dict_set k v kvs)"

definition dict_del :: "'k \<Rightarrow> ('k \<times> 'v) list \<Rightarrow> ('k \<times> 'v) list" where
  "dict_del k kvs = filter (\<lambda>kv. fst kv \<noteq> k) kvs"

definition set_player :: "server \<Rightarrow> conn \<Rightarrow> player \<Rightarrow> server" where
  "set_player s ws p = s\<lparr>PLAYERS := dict_set ws p (PLAYERS s)\<rparr>"

text \<open>
  The start of the process: the module builds the generator from the constants, generates
  the maze, and \<open>debug_coordinates\<close> sets \<^verbatim>\<open>INITIAL_START_POSITION\<close> from the start cell.
\<close>

definition startup :: "rng \<Rightarrow> error + server" where
  "startup g =
     (case generate (MazeGenerator MAZE_WIDTH MAZE_HEIGHT NUM_MAZE_LAYERS) g of
        Inl e \<Rightarrow> Inl e
      | Inr (gen, g') \<Rightarrow>
          (case start_coords gen of
             None \<Rightarrow> Inl TypeError
           | Some (sr, sc) \<Rightarrow>
               Inr \<lparr> PLAYERS = [], BULLETS = [], NEXT_PLAYER_ID = 0, NEXT_BULLET_ID = 0,
                     MAZE_GENERATOR = gen,
                     INITIAL_START_POSITION = grid_to_world_coords sr sc 0,
                     random_state = g', outbox = [] \<rparr>))"

text \<open>
  \<open>broadcast\<close> sends to every connection in \<^verbatim>\<open>PLAYERS\<close>. The transport is taken to be
  reliable: every \<^verbatim>\<open>send\<close> succeeds, so the branch that unregisters a connection whose
  send failed is never taken. Each handler runs to its end before the next event is
  processed.
\<close>

definition broadcast :: "server \<Rightarrow> message \<Rightarrow> server" where
  "broadcast s message = s\<lparr>outbox := outbox s @ [(message, map fst (PLAYERS s))]\<rparr>"

definition get_random_open_position_on_layer :: "server \<Rightarrow> int \<Rightarrow> error + (vec3 \<times> rng)" where
  "get_random_open_position_on_layer s layer_index =
     (if layer_index < 0 \<or> layer_index \<ge> NUM_MAZE_LAYERS
      then Inr (INITIAL_START_POSITION s, random_state s)
      else
        (case py_getitem (GENERATED_MAZE_DATA s) layer_index of
           Inl e \<Rightarrow> Inl e
         | Inr target_maze_layer \<Rightarrow>
             (case open_spots target_maze_layer MAZE_HEIGHT MAZE_WIDTH of
                Inl e \<Rightarrow> Inl e
              | Inr spots \<Rightarrow>
                  if spots \<noteq> [] then
                    (case choice spots (random_state s) of
                       Inl e \<Rightarrow> Inl e
                     | Inr ((sr, sc), g') \<Rightarrow> Inr (grid_to_world_coords sr sc layer_index, g'))
                  else Inr (INITIAL_START_POSITION s, random_state s))))"

definition zero_rotation :: vec3 where
  "zero_rotation = \<lparr> coord_x = 0, coord_y = 0, coord_z = 0 \<rparr>"

text \<open>
  A handler returns the exception it raised, if any, and the state it left behind
  (what it had already changed stays changed).
\<close>

definition register_player :: "server \<Rightarrow> conn \<Rightarrow> error option \<times> server" where
  "register_player s websocket =
     (let new_id = ''player_'' @ str_int (NEXT_PLAYER_ID s);
          s1 = s\<lparr>NEXT_PLAYER_ID := NEXT_PLAYER_ID s + 1\<rparr>
      in case randint 0 0xFFFFFF (random_state s1) of
           Inl e \<Rightarrow> (Some e, s1)
         | Inr (n, g1) \<Rightarrow>
             (let s2 = s1\<lparr>random_state := g1\<rparr>
              in case get_random_open_position_on_layer s2 0 of
                   Inl e \<Rightarrow> (Some e, s2)
                 | Inr (spawn_position, g2) \<Rightarrow>
                     (let player_data =
                            \<lparr> player_id = new_id, position = spawn_position,
                              rotation = zero_rotation, layer = 0, health = MAX_HEALTH,
                              score = 0, color = CHR ''#'' # hex06 n \<rparr>;
                          s3 = set_player (s2\<lparr>random_state := g2\<rparr>) websocket player_data;
                          existing_players =
                            map snd (filter (\<lambda>kv. fst kv \<noteq> websocket) (PLAYERS s3))
                      in case END_GRID_COORDS s3 of
                           None \<Rightarrow> (Some TypeError, s3)
                         | Some (er, ec) \<Rightarrow>
                             (let init_message =
                                    Init new_id existing_players (GENERATED_MAZE_DATA s3)
                                      spawn_position
                                      (grid_to_world_coords er ec (NUM_MAZE_LAYERS - 1));
                                  s4 = s3\<lparr>outbox := outbox s3 @ [(init_message, [websocket])]\<rparr>
                              in (None,
                                  broadcast s4
                                    (Player_connected new_id (position player_data)
                                       (rotation player_data) (layer player_data)
                                       (health player_data) (score player_data)
                                       (color player_data)))))))"

definition unregister_player :: "server \<Rightarrow> conn \<Rightarrow> server" where
  "unregister_player s websocket =
     (case map_of (PLAYERS s) websocket of
        None \<Rightarrow> s
      | Some p \<Rightarrow>
          if player_id p \<noteq> [] then
            broadcast (s\<lparr>PLAYERS := dict_del websocket (PLAYERS s)\<rparr>)
              (Player_disconnected (player_id p))
          else s)"

definition respawn_player ::
    "server \<Rightarrow> conn \<Rightarrow> string \<Rightarrow> string option \<Rightarrow> bool \<Rightarrow> error option \<times> server" where
  "respawn_player s websocket pid killer_id reset_score =
     (case map_of (PLAYERS s) websocket of
        None \<Rightarrow> (Some KeyError, s)
      | Some player_data \<Rightarrow>
          (let p1 = (if killer_id \<noteq> None \<and> killer_id \<noteq> Some [] \<and> reset_score
                     then player_data\<lparr>score := max 0 (score player_data - 100)\<rparr>
                     else player_data);
               s1 = set_player s websocket p1
           in case get_random_open_position_on_layer s1 0 of
                Inl e \<Rightarrow> (Some e, s1)
              | Inr (new_respawn_position, g') \<Rightarrow>
                  (let p2 = p1\<lparr>health := MAX_HEALTH, position := new_respawn_position,
                               layer := 0, rotation := zero_rotation\<rparr>;
                       s2 = set_player (s1\<lparr>random_state := g'\<rparr>) websocket p2;
                       s3 = broadcast s2 (Player_defeated pid (score p2) killer_id);
                       s4 = broadcast s3
                              (Player_respawned pid (position p2) (layer p2) (health p2)
                                 (score p2) (color p2) (rotation p2))
                   in (None, s4))))"


section \<open>The event handlers\<close>

text \<open>
  The handlers are called by \<open>handle_client_messages\<close> once \<^verbatim>\<open>data["type"]\<close> has been read,
  so \<open>data\<close> is a dictionary: its key-value list is what they take.

  \<open>update_vec3\<close> is the block of three assignments
  \<^verbatim>\<open>p["x"] = float(d.get("x", p["x"]))\<close>, \<open>"y"\<close>, \<open>"z"\<close>: each is stored before the next
  is converted, so an exception leaves the earlier ones in place.
\<close>

definition float_or :: "py_runtime \<Rightarrow> (string \<times> json) list \<Rightarrow> string \<Rightarrow> rat \<Rightarrow> error + rat" where
  "float_or rt d k dflt = (case map_of d k of None \<Rightarrow> Inr dflt | Some v \<Rightarrow> py_float rt v)"

definition update_vec3 ::
    "py_runtime \<Rightarrow> (string \<times> json) list \<Rightarrow> vec3 \<Rightarrow> error option \<times> vec3" where
  "update_vec3 rt d v =
     (case float_or rt d ''x'' (coord_x v) of
        Inl e \<Rightarrow> (Some e, v)
      | Inr x' \<Rightarrow>
          (let v1 = v\<lparr>coord_x := x'\<rparr>
           in case float_or rt d ''y'' (coord_y v1) of
                Inl e \<Rightarrow> (Some e, v1)
              | Inr y' \<Rightarrow>
                  (let v2 = v1\<lparr>coord_y := y'\<rparr>
                   in case float_or rt d ''z'' (coord_z v2) of
                        Inl e \<Rightarrow> (Some e, v2)
                      | Inr z' \<Rightarrow> (None, v2\<lparr>coord_z := z'\<rparr>))))"

text \<open>
  \<open>update_field\<close> is one guarded block of \<open>handle_player_update\<close>:
  \<^verbatim>\<open>if k in data and isinstance(data[k], dict): ...\<close> on the vector stored under \<open>k\<close>.
\<close>

definition update_field ::
    "py_runtime \<Rightarrow> (string \<times> json) list \<Rightarrow> string \<Rightarrow> vec3 \<Rightarrow> error option \<times> vec3" where
  "update_field rt data k v =
     (case map_of data k of
        Some (JObj d) \<Rightarrow> update_vec3 rt d v
      | _ \<Rightarrow> (None, v))"

definition handle_player_update ::
    "py_runtime \<Rightarrow> server \<Rightarrow> conn \<Rightarrow> (string \<times> json) list \<Rightarrow> error option \<times> server" where
  "handle_player_update rt s websocket data =
     (case map_of (PLAYERS s) websocket of
        None \<Rightarrow> (None, s)
      | Some player_data \<Rightarrow>
          (case update_field rt data ''position'' (position player_data) of
             (Some e, v) \<Rightarrow> (Some e, set_player s websocket (player_data\<lparr>position := v\<rparr>))
           | (None, v) \<Rightarrow>
               (let p1 = player_data\<lparr>position := v\<rparr>
                in case update_field rt data ''rotation'' (rotation p1) of
                     (Some e, v') \<Rightarrow> (Some e, set_player s websocket (p1\<lparr>rotation := v'\<rparr>))
                   | (None, v') \<Rightarrow>
                       (let p2 = p1\<lparr>rotation := v'\<rparr>
                        in case (case map_of data ''layer'' of
                                   None \<Rightarrow> Inr (layer p2)
                                 | Some lv \<Rightarrow> py_int rt lv) of
                             Inl e \<Rightarrow> (Some e, set_player s websocket p2)
                           | Inr n \<Rightarrow>
                               (let p3 = p2\<lparr>layer := n\<rparr>
                                in (None,
                                    broadcast (set_player s websocket p3)
                                      (Player_update (player_id p3) (position p3)
                                         (rotation p3) (layer p3))))))))"

text \<open>\<open>read_vec3\<close> builds \<^verbatim>\<open>{"x": float(v["x"]), "y": float(v["y"]), "z": float(v["z"])}\<close>.\<close>

definition float_at :: "py_runtime \<Rightarrow> json \<Rightarrow> string \<Rightarrow> error + rat" where
  "float_at rt v k = (case py_subscript v k of Inl e \<Rightarrow> Inl e | Inr x \<Rightarrow> py_float rt x)"

definition read_vec3 :: "py_runtime \<Rightarrow> json \<Rightarrow> error + vec3" where
  "read_vec3 rt v =
     (case float_at rt v ''x'' of
        Inl e \<Rightarrow> Inl e
      | Inr vx \<Rightarrow>
          (case float_at rt v ''y'' of
             Inl e \<Rightarrow> Inl e
           | Inr vy \<Rightarrow>
               (case float_at rt v ''z'' of
                  Inl e \<Rightarrow> Inl e
                | Inr vz \<Rightarrow> Inr \<lparr> coord_x = vx, coord_y = vy, coord_z = vz \<rparr>)))"

definition handle_bullet_fired ::
    "py_runtime \<Rightarrow> server \<Rightarrow> conn \<Rightarrow> (string \<times> json) list \<Rightarrow> error option \<times> server" where
  "handle_bullet_fired rt s websocket data =
     (case map_of (PLAYERS s) websocket of
        None \<Rightarrow> (None, s)
      | Some player_data \<Rightarrow>
          (let new_id = ''bullet_'' @ str_int (NEXT_BULLET_ID s);
               s1 = s\<lparr>NEXT_BULLET_ID := NEXT_BULLET_ID s + 1\<rparr>
           in case py_subscript (JObj data) ''start_position'' of
                Inl e \<Rightarrow> (Some e, s1)
              | Inr sp \<Rightarrow>
                  (case read_vec3 rt sp of
                     Inl e \<Rightarrow> (Some e, s1)
                   | Inr start_position \<Rightarrow>
                       (case py_subscript (JObj data) ''direction'' of
                          Inl e \<Rightarrow> (Some e, s1)
                        | Inr dv \<Rightarrow>
                            (case read_vec3 rt dv of
                               Inl e \<Rightarrow> (Some e, s1)
                             | Inr direction \<Rightarrow>
                                 (case py_subscript (JObj data) ''layer'' of
                                    Inl e \<Rightarrow> (Some e, s1)
                                  | Inr lv \<Rightarrow>
                                      (case py_int rt lv of
                                         Inl e \<Rightarrow> (Some e, s1)
                                       | Inr n \<Rightarrow>
                                           (let bullet_data =
                                                  \<lparr> bullet_id = new_id,
                                                    shooter_id = player_id player_data,
                                                    bullet_position = start_position,
                                                    bullet_direction = direction,
                                                    bullet_layer = n \<rparr>;
                                                s2 = s1\<lparr>BULLETS := BULLETS s1 @ [bullet_data]\<rparr>
                                            in (None,
                                                broadcast s2
                                                  (Bullet_fired new_id (player_id player_data)
                                                     start_position direction n))))))))))"

text \<open>
  \<open>handle_player_hit\<close>. \<open>target_player_data\<close> and \<open>shooter_data\<close> are references to the
  dictionaries held in \<^verbatim>\<open>PLAYERS\<close> (the same dictionary when a player hits itself), so every
  read goes to the current state. An identity is a string; a \<open>target_id\<close> of another type
  equals no identity.
\<close>

definition find_player :: "server \<Rightarrow> json \<Rightarrow> (conn \<times> player) option" where
  "find_player s target_id = find (\<lambda>kv. JStr (player_id (snd kv)) = target_id) (PLAYERS s)"

definition handle_player_hit ::
    "server \<Rightarrow> conn \<Rightarrow> (string \<times> json) list \<Rightarrow> error option \<times> server" where
  "handle_player_hit s websocket data =
     (let target_id = (case map_of data ''target_id'' of None \<Rightarrow> JNull | Some v \<Rightarrow> v)
      in case map_option player_id (map_of (PLAYERS s) websocket) of
           None \<Rightarrow> (None, s)
         | Some sid \<Rightarrow>
             if \<not> truthy target_id \<or> sid = [] then (None, s)
             else
               (case find_player s target_id of
                  None \<Rightarrow> (None, s)
                | Some (target_websocket, target_player_data) \<Rightarrow>
                    (let tid = player_id target_player_data;
                         s1 = set_player s target_websocket
                                (target_player_data
                                   \<lparr>health := health target_player_data - BULLET_DAMAGE\<rparr>)
                     in case map_of (PLAYERS s1) websocket of
                          None \<Rightarrow> (Some KeyError, s1)
                        | Some shooter_data \<Rightarrow>
                            (let shooter1 = shooter_data\<lparr>score := score shooter_data + 10\<rparr>;
                                 s2 = set_player s1 websocket shooter1;
                                 s3 = broadcast s2 (Score_update sid (score shooter1))
                             in case map_of (PLAYERS s3) target_websocket of
                                  None \<Rightarrow> (Some KeyError, s3)
                                | Some target1 \<Rightarrow>
                                    (let s4 = broadcast s3
                                                (Health_update tid (health target1)
                                                   (score target1))
                                     in if health target1 \<le> 0 then
                                          (case respawn_player s4 target_websocket tid
                                                  (Some sid) True of
                                             (Some e, s5) \<Rightarrow> (Some e, s5)
                                           | (None, s5) \<Rightarrow>
                                               (case map_of (PLAYERS s5) websocket of
                                                  None \<Rightarrow> (Some KeyError, s5)
                                                | Some shooter2 \<Rightarrow>
                                                    (let shooter3 =
                                                           shooter2
                                                             \<lparr>score := score shooter2 + 500\<rparr>;
                                                         s6 = set_player s5 websocket shooter3
                                                     in (None,
                                                         broadcast s6
                                                           (Score_update sid
                                                              (score shooter3))))))
                                        else (None, s4))))))"

text \<open>
  \<open>handle_teleport_request\<close>. \<^verbatim>\<open>isinstance(target_layer, int)\<close> holds for an integer and for
  a \<^verbatim>\<open>bool\<close>. The read \<^verbatim>\<open>GENERATED_MAZE_DATA[layer][r][c]\<close> raises \<^verbatim>\<open>IndexError\<close> outside the
  maze.
\<close>

definition as_int :: "json \<Rightarrow> int option" where
  "as_int v = (case v of JInt i \<Rightarrow> Some i | JBool b \<Rightarrow> Some (if b then 1 else 0) | _ \<Rightarrow> None)"

definition handle_teleport_request ::
    "server \<Rightarrow> conn \<Rightarrow> (string \<times> json) list \<Rightarrow> error option \<times> server" where
  "handle_teleport_request s websocket data =
     (case map_of (PLAYERS s) websocket of
        None \<Rightarrow> (None, s)
      | Some player_data \<Rightarrow>
          (case as_int (case map_of data ''target_layer'' of None \<Rightarrow> JNull | Some v \<Rightarrow> v) of
             None \<Rightarrow> (None, s)
           | Some target_layer \<Rightarrow>
               (case world_to_grid_coords (coord_x (position player_data))
                       (coord_z (position player_data)) of
                  (gr, gc) \<Rightarrow>
                    (case py_getitem (GENERATED_MAZE_DATA s) (layer player_data) of
                       Inl e \<Rightarrow> (Some e, s)
                     | Inr layer_maze \<Rightarrow>
                         (case get_cell layer_maze gr gc of
                            Inl e \<Rightarrow> (Some e, s)
                          | Inr current_cell_char \<Rightarrow>
                              if current_cell_char = CHR ''L''
                                 \<and> target_layer = layer player_data + 1
                                 \<and> target_layer < NUM_MAZE_LAYERS
                              then
                                (case find (\<lambda>t. snd (snd t) = CHR ''l'')
                                        (case teleporter_coords (MAZE_GENERATOR s) target_layer of
                                           None \<Rightarrow> [] | Some ts \<Rightarrow> ts) of
                                   None \<Rightarrow> (None, s)
                                 | Some (tr, tc, ty) \<Rightarrow>
                                     (let p1 = player_data
                                                 \<lparr>position := grid_to_world_coords tr tc target_layer,
                                                  layer := target_layer\<rparr>
                                      in (None,
                                          broadcast (set_player s websocket p1)
                                            (Player_update (player_id p1) (position p1)
                                               (rotation p1) (layer p1)))))
                              else (None, s))))))"

definition handle_teleport_to_start :: "server \<Rightarrow> conn \<Rightarrow> error option \<times> server" where
  "handle_teleport_to_start s websocket =
     (case map_of (PLAYERS s) websocket of
        None \<Rightarrow> (None, s)
      | Some player_data \<Rightarrow>
          (case get_random_open_position_on_layer s 0 of
             Inl e \<Rightarrow> (Some e, s)
           | Inr (new_respawn_position, g') \<Rightarrow>
               (let p1 = player_data\<lparr>position := new_respawn_position, layer := 0,
                                      rotation := zero_rotation\<rparr>
                in (None,
                    broadcast (set_player (s\<lparr>random_state := g'\<rparr>) websocket p1)
                      (Player_update (player_id p1) (position p1) (rotation p1) (layer p1))))))"

text \<open>
  \<open>handle_player_reached_end\<close>. The three-second sleep between the win message and the
  respawn is not modelled.
\<close>

definition handle_player_reached_end :: "server \<Rightarrow> conn \<Rightarrow> error option \<times> server" where
  "handle_player_reached_end s websocket =
     (case map_of (PLAYERS s) websocket of
        None \<Rightarrow> (None, s)
      | Some player_data \<Rightarrow>
          (case world_to_grid_coords (coord_x (position player_data))
                  (coord_z (position player_data)) of
             (gr, gc) \<Rightarrow>
               if layer player_data = NUM_MAZE_LAYERS - 1 then
                 (case END_GRID_COORDS s of
                    None \<Rightarrow> (Some TypeError, s)
                  | Some (er, ec) \<Rightarrow>
                      if gr = er \<and> gc = ec then
                        respawn_player (broadcast s (Game_win (player_id player_data))) websocket
                          (player_id player_data) (Some ''maze'') False
                      else (None, s))
               else (None, s)))"

text \<open>
  One turn of the loop of \<open>handle_client_messages\<close>: \<open>dispatch\<close> is the body, and
  \<open>client_message\<close> adds the \<^verbatim>\<open>try\<close> around the loop: an exception ends the loop, the
  \<^verbatim>\<open>finally\<close> clause unregisters the player and the connection is closed. The Boolean
  says whether the loop goes on.
\<close>

definition dispatch :: "py_runtime \<Rightarrow> server \<Rightarrow> conn \<Rightarrow> json \<Rightarrow> error option \<times> server" where
  "dispatch rt s websocket data =
     (case py_subscript data ''type'' of
        Inl e \<Rightarrow> (Some e, s)
      | Inr t \<Rightarrow>
          (case data of
             JObj d \<Rightarrow>
               if t = JStr ''player_update'' then handle_player_update rt s websocket d
               else if t = JStr ''bullet_fired'' then handle_bullet_fired rt s websocket d
               else if t = JStr ''player_hit'' then handle_player_hit s websocket d
               else if t = JStr ''teleport_request'' then handle_teleport_request s websocket d
               else if t = JStr ''teleport_to_start'' then handle_teleport_to_start s websocket
               else if t = JStr ''player_reached_end'' then handle_player_reached_end s websocket
               else (None, s)
           | _ \<Rightarrow> (None, s)))"

definition client_message :: "py_runtime \<Rightarrow> server \<Rightarrow> conn \<Rightarrow> json \<Rightarrow> bool \<times> server" where
  "client_message rt s websocket data =
     (case dispatch rt s websocket data of
        (None, s') \<Rightarrow> (True, s')
      | (Some e, s') \<Rightarrow> (False, unregister_player s' websocket))"

text \<open>
  The events the server processes, in the order it processes them: a connection opens
  (\<open>register_player\<close>), a message arrives on a connection, a connection closes.
\<close>

datatype event = Connect conn | Message conn json | Disconnect conn

fun step :: "py_runtime \<Rightarrow> server \<Rightarrow> event \<Rightarrow> server" where
  "step rt s (Connect ws) = snd (register_player s ws)"
| "step rt s (Message ws data) = snd (client_message rt s ws data)"
| "step rt s (Disconnect ws) = unregister_player s ws"

definition run :: "py_runtime \<Rightarrow> server \<Rightarrow> event list \<Rightarrow> server" where
  "run rt s evs = foldl (step rt) s evs"


section \<open>A concrete server state\<close>

text \<open>
  The maze that \<open>startup\<close> generates from the random numbers
  \<open>3, 1, 4, 1, 5, 9, 2, 6, 5, 3, 5, 8, 9, 7, 9, 3, 2, 3, 8, 4, 6, 2, 6, 4, 3, 3, 8, 3, 2, 7, 9, 5\<close>
  (and zeros from then on), with two players connected: \<open>player_0\<close> stands on the
  up-teleporter of layer 0, \<open>player_1\<close> has ten health points left. The theorems below are
  instantiated and the counterexamples evaluated on this state.
\<close>

definition example_layer_0 :: maze where
  "example_layer_0 =
     [''#################'', ''#SL #   #     # #'', ''# # # # # ### # #'',
      ''# # # # #   # # #'', ''# # # # ### # # #'', ''# # # #   # # # #'',
      ''# # # ### # # # #'', ''# # #   # # # # #'', ''# ##### # # # # #'',
      ''# #   # # # # # #'', ''# # # # # # # # #'', ''# # # # # # # # #'',
      ''# # # # # # # # #'', ''# # # # # # # # #'', ''# # # # # # # # #'',
      ''#   #   #   #   #'', ''#################'']"

definition example_layer_1 :: maze where
  "example_layer_1 =
     [''#################'', ''#E#l  #   #   # #'', ''# # # # # # # # #'',
      ''# # # # # # # # #'', ''# # # # # # # # #'', ''# # # # # # # # #'',
      ''# # # # # # # # #'', ''# # # # # # # # #'', ''# # # # # # # # #'',
      ''# # # # # # # # #'', ''# # # # # # # # #'', ''# # # # # # # # #'',
      ''# # # # # # # # #'', ''# # # # # # # # #'', ''# # # # # # # # #'',
      ''#   #   #   #   #'', ''#################'']"

definition example_generator :: maze_generator where
  "example_generator =
     \<lparr> width = 17, height = 17, num_layers = 2,
       mazes = [example_layer_0, example_layer_1],
       start_coords = Some (1, 1), end_coords = Some (1, 1),
       teleporter_coords = [0 \<mapsto> [(1, 2, CHR ''L'')], 1 \<mapsto> [(1, 3, CHR ''l'')]],
       all_open_spots_layer0 =
         [(1, 1), (1, 2), (1, 3), (1, 5), (1, 6), (1, 7), (1, 9), (1, 10), (1, 11),
         (1, 12), (1, 13), (1, 15), (2, 1), (2, 3), (2, 5), (2, 7), (2, 9), (2, 13),
         (2, 15), (3, 1), (3, 3), (3, 5), (3, 7), (3, 9), (3, 10), (3, 11), (3, 13),
         (3, 15), (4, 1), (4, 3), (4, 5), (4, 7), (4, 11), (4, 13), (4, 15), (5, 1),
         (5, 3), (5, 5), (5, 7), (5, 8), (5, 9), (5, 11), (5, 13), (5, 15), (6, 1),
         (6, 3), (6, 5), (6, 9), (6, 11), (6, 13), (6, 15), (7, 1), (7, 3), (7, 5),
         (7, 6), (7, 7), (7, 9), (7, 11), (7, 13), (7, 15), (8, 1), (8, 7), (8, 9),
         (8, 11), (8, 13), (8, 15), (9, 1), (9, 3), (9, 4), (9, 5), (9, 7), (9, 9),
         (9, 11), (9, 13), (9, 15), (10, 1), (10, 3), (10, 5), (10, 7), (10, 9), (10, 11),
         (10, 13), (10, 15), (11, 1), (11, 3), (11, 5), (11, 7), (11, 9), (11, 11), (11, 13),
         (11, 15), (12, 1), (12, 3), (12, 5), (12, 7), (12, 9), (12, 11), (12, 13), (12, 15),
         (13, 1), (13, 3), (13, 5), (13, 7), (13, 9), (13, 11), (13, 13), (13, 15), (14, 1),
         (14, 3), (14, 5), (14, 7), (14, 9), (14, 11), (14, 13), (14, 15), (15, 1), (15, 2),
         (15, 3), (15, 5), (15, 6), (15, 7), (15, 9), (15, 10), (15, 11), (15, 13), (15, 14),
         (15, 15)] \<rparr>"

definition example_player_0 :: player where
  "example_player_0 =
     \<lparr> player_id = ''player_0'', position = grid_to_world_coords 1 2 0,
       rotation = zero_rotation, layer = 0, health = 100, score = 0, color = ''#0000ff'' \<rparr>"

definition example_player_1 :: player where
  "example_player_1 =
     \<lparr> player_id = ''player_1'', position = grid_to_world_coords 15 15 0,
       rotation = zero_rotation, layer = 0, health = 10, score = 50, color = ''#00ff00'' \<rparr>"

definition example_server :: server where
  "example_server =
     \<lparr> PLAYERS = [(0, example_player_0), (1, example_player_1)], BULLETS = [],
       NEXT_PLAYER_ID = 2, NEXT_BULLET_ID = 0,
       MAZE_GENERATOR = example_generator,
       INITIAL_START_POSITION = grid_to_world_coords 1 1 0,
       random_state = [7, 11], outbox = [] \<rparr>"

definition example_runtime :: py_runtime where
  "example_runtime = \<lparr> float_of_str = (\<lambda>s. None), int_of_str = (\<lambda>s. None) \<rparr>"

section \<open>The coordinate mapping\<close>

text \<open>
  Claim C3. For every grid cell \<open>(r, c)\<close> with \<open>0 \<le> r < MAZE_HEIGHT\<close> and
  \<open>0 \<le> c < MAZE_WIDTH\<close> and every layer index, \<open>world_to_grid_coords\<close> applied to the
  \<open>x\<close> and \<open>z\<close> components of \<open>grid_to_world_coords r c layer\<close> returns exactly \<open>(r, c)\<close>.
\<close>

theorem world_to_grid_of_grid_to_world:
  "0 \<le> r \<Longrightarrow> r < MAZE_HEIGHT \<Longrightarrow> 0 \<le> c \<Longrightarrow> c < MAZE_WIDTH \<Longrightarrow>
     world_to_grid_coords (coord_x (grid_to_world_coords r c l))
                          (coord_z (grid_to_world_coords r c l)) = (r, c)"
  by (simp add: world_to_grid_coords_def grid_to_world_coords_def MAZE_WIDTH_def MAZE_HEIGHT_def
      BLOCK_SIZE_def Let_def)

theorem world_to_grid_of_grid_to_world_witness:
  "(0::int) \<le> 3 \<and> (3::int) < MAZE_HEIGHT \<and> (0::int) \<le> 16 \<and> (16::int) < MAZE_WIDTH \<and>
     world_to_grid_coords (coord_x (grid_to_world_coords 3 16 1))
                          (coord_z (grid_to_world_coords 3 16 1)) = (3, 16)"
  using world_to_grid_of_grid_to_world[of 3 16 1]
  by (simp add: MAZE_WIDTH_def MAZE_HEIGHT_def)


section \<open>Facts about the dictionary and the state operations\<close>

lemma map_of_dict_set [simp]:
  "map_of (dict_set k v kvs) k' = (if k' = k then Some v else map_of kvs k')"
  by (induction kvs) auto

lemma dict_set_twice [simp]: "dict_set k v (dict_set k v' kvs) = dict_set k v kvs"
  by (induction kvs) auto

lemma keys_dict_set [simp]:
  "map_of kvs k = Some v' \<Longrightarrow> map fst (dict_set k v kvs) = map fst kvs"
  by (induction kvs) (auto split: if_splits)

lemma set_dict_set: "set (dict_set k v kvs) \<subseteq> insert (k, v) (set kvs)"
  by (induction kvs) (auto split: if_splits)

lemma broadcast_simps [simp]:
  "PLAYERS (broadcast s m) = PLAYERS s"
  "BULLETS (broadcast s m) = BULLETS s"
  "NEXT_PLAYER_ID (broadcast s m) = NEXT_PLAYER_ID s"
  "NEXT_BULLET_ID (broadcast s m) = NEXT_BULLET_ID s"
  "MAZE_GENERATOR (broadcast s m) = MAZE_GENERATOR s"
  "INITIAL_START_POSITION (broadcast s m) = INITIAL_START_POSITION s"
  "random_state (broadcast s m) = random_state s"
  "outbox (broadcast s m) = outbox s @ [(m, map fst (PLAYERS s))]"
  by (simp_all add: broadcast_def)

lemma set_player_simps [simp]:
  "PLAYERS (set_player s ws p) = dict_set ws p (PLAYERS s)"
  "BULLETS (set_player s ws p) = BULLETS s"
  "NEXT_PLAYER_ID (set_player s ws p) = NEXT_PLAYER_ID s"
  "NEXT_BULLET_ID (set_player s ws p) = NEXT_BULLET_ID s"
  "MAZE_GENERATOR (set_player s ws p) = MAZE_GENERATOR s"
  "INITIAL_START_POSITION (set_player s ws p) = INITIAL_START_POSITION s"
  "random_state (set_player s ws p) = random_state s"
  "outbox (set_player s ws p) = outbox s"
  by (simp_all add: set_player_def)

lemma random_position_cong:
  "MAZE_GENERATOR s = MAZE_GENERATOR s' \<Longrightarrow>
   INITIAL_START_POSITION s = INITIAL_START_POSITION s' \<Longrightarrow>
   random_state s = random_state s' \<Longrightarrow>
   get_random_open_position_on_layer s l = get_random_open_position_on_layer s' l"
  by (simp add: get_random_open_position_on_layer_def GENERATED_MAZE_DATA_def
      split: sum.splits)

lemma random_position_broadcast [simp]:
  "get_random_open_position_on_layer (broadcast s m) l = get_random_open_position_on_layer s l"
  by (rule random_position_cong) simp_all

lemma random_position_set_player [simp]:
  "get_random_open_position_on_layer (set_player s ws p) l =
   get_random_open_position_on_layer s l"
  by (rule random_position_cong) simp_all

lemma find_SomeD: "find P xs = Some x \<Longrightarrow> x \<in> set xs \<and> P x"
  by (induction xs) (auto split: if_splits)

lemma find_player_SomeD:
  "find_player s t = Some (ws, p) \<Longrightarrow> (ws, p) \<in> set (PLAYERS s) \<and> JStr (player_id p) = t"
  by (auto simp: find_player_def dest: find_SomeD)

lemma find_player_map_of:
  "distinct (map fst (PLAYERS s)) \<Longrightarrow> find_player s t = Some (ws, p) \<Longrightarrow>
     map_of (PLAYERS s) ws = Some p"
  by (auto dest: find_player_SomeD)

lemma find_unique_id:
  "distinct (map (\<lambda>kv. player_id (snd kv)) kvs) \<Longrightarrow> (ws, p) \<in> set kvs \<Longrightarrow>
     find (\<lambda>kv. JStr (player_id (snd kv)) = JStr (player_id p)) kvs = Some (ws, p)"
  by (induction kvs) (auto simp: image_iff)

lemma respawn_player_result:
  assumes "map_of (PLAYERS s) ws = Some p"
    and "get_random_open_position_on_layer s 0 = Inr (pos, g')"
  shows "respawn_player s ws pid killer reset =
     (let p2 = p\<lparr>score := (if killer \<noteq> None \<and> killer \<noteq> Some [] \<and> reset
                               then max 0 (score p - 100) else score p),
                  health := MAX_HEALTH, position := pos, layer := 0, rotation := zero_rotation\<rparr>;
          s2 = set_player (s\<lparr>random_state := g'\<rparr>) ws p2
      in (None, broadcast (broadcast s2 (Player_defeated pid (score p2) killer))
           (Player_respawned pid pos 0 MAX_HEALTH (score p2) (color p) zero_rotation)))"
  using assms
  by (simp add: respawn_player_def Let_def)

lemma example_random_position:
  "get_random_open_position_on_layer example_server 0 = Inr (grid_to_world_coords 1 12 0, [11])"
  by code_simp

section \<open>Hits\<close>

text \<open>
  Claim C1, as amended. The claim says that a processed \<open>player_hit\<close> applies all its
  state changes before its first broadcast and broadcasts \<open>health_update\<close> before
  \<open>score_update\<close>. The handler does otherwise: it broadcasts \<open>score_update\<close> first and
  \<open>health_update\<close> second and, when the target is defeated, \<open>player_defeated\<close>,
  \<open>player_respawned\<close> and a second \<open>score_update\<close>. Every broadcast goes to all
  connected players and carries the state as changed so far: the damage and the ten points
  are applied before the first broadcast, the respawn (penalty, fresh position) before
  \<open>player_defeated\<close>, and the 500 points after \<open>player_respawned\<close> only.
  Here \<open>sh\<close> is the shooter, \<open>tp\<close> the player the target identity \<open>t\<close> resolves to and
  \<open>pos\<close> the position the respawn draws.
\<close>

theorem player_hit_broadcasts:
  assumes d: "distinct (map fst (PLAYERS s))"
    and sh: "map_of (PLAYERS s) ws = Some sh" "player_id sh \<noteq> []"
    and t: "map_of data ''target_id'' = Some (JStr t)" "t \<noteq> []"
    and f: "find_player s (JStr t) = Some (tws, tp)"
    and g: "get_random_open_position_on_layer s 0 = Inr (pos, g')"
  shows "\<exists>s'. handle_player_hit s ws data = (None, s') \<and>
     outbox s' = outbox s @ map (\<lambda>m. (m, map fst (PLAYERS s)))
       (let sid = player_id sh;
            tscore = (if tws = ws then score tp + 10 else score tp);
            pscore = max 0 (tscore - 100)
        in [Score_update sid (score sh + 10),
            Health_update t (health tp - 10) tscore] @
           (if health tp - 10 \<le> 0 then
              [Player_defeated t pscore (Some sid),
               Player_respawned t pos 0 100 pscore (color tp) zero_rotation,
               Score_update sid ((if tws = ws then pscore else score sh + 10) + 500)]
            else []))"
proof -
  have tp: "map_of (PLAYERS s) tws = Some tp" "player_id tp = t"
    using find_player_map_of[OF d f] find_player_SomeD[OF f] by auto
  show ?thesis
  proof (cases "tws = ws")
    case True
    then have [simp]: "sh = tp" using sh tp by simp
    show ?thesis using True sh t f g tp
      by (simp add: handle_player_hit_def Let_def truthy_def respawn_player_result
          BULLET_DAMAGE_def MAX_HEALTH_def)
  next
    case False
    show ?thesis using False sh t f g tp
      by (simp add: handle_player_hit_def Let_def truthy_def respawn_player_result
          BULLET_DAMAGE_def MAX_HEALTH_def)
  qed
qed

theorem player_hit_broadcasts_witness:
  "\<exists>s'. handle_player_hit example_server 0 [(''target_id'', JStr ''player_1'')] = (None, s') \<and>
     outbox s' = map (\<lambda>m. (m, [0, 1]))
       [Score_update ''player_0'' 10,
        Health_update ''player_1'' 0 50,
        Player_defeated ''player_1'' 0 (Some ''player_0''),
        Player_respawned ''player_1'' (grid_to_world_coords 1 12 0) 0 100 0 ''#00ff00''
          zero_rotation,
        Score_update ''player_0'' 510]"
  using player_hit_broadcasts[of example_server 0 example_player_0
      "[(''target_id'', JStr ''player_1'')]" "''player_1''" 1 example_player_1
      "grid_to_world_coords 1 12 0" "[11]"]
    example_random_position
  by (simp add: example_server_def example_player_0_def example_player_1_def find_player_def
      Let_def)

text \<open>
  The counterexample to the claim as stated: \<open>player_0\<close> hits \<open>player_1\<close>, who has ten
  health points left. The first message is the score update, the health update is the
  second, and the shooter ends with 510 points although the first broadcast announced 10:
  the 500 points were added after four broadcasts.
\<close>

theorem player_hit_order_counterexample:
  "(case handle_player_hit example_server 0 [(''target_id'', JStr ''player_1'')] of
      (e, s') \<Rightarrow>
        e = None \<and>
        map (\<lambda>b. msg_type (fst b)) (outbox s') =
          [''score_update'', ''health_update'', ''player_defeated'', ''player_respawned'',
           ''score_update''] \<and>
        map (\<lambda>b. msg_type (fst b)) (outbox s') \<noteq>
          [''health_update'', ''score_update'', ''player_defeated'', ''player_respawned'',
           ''score_update''] \<and>
        fst (hd (outbox s')) = Score_update ''player_0'' 10 \<and>
        map_option score (map_of (PLAYERS s') 0) = Some 510)"
  using example_random_position
  by (simp add: handle_player_hit_def Let_def truthy_def respawn_player_result find_player_def
      BULLET_DAMAGE_def MAX_HEALTH_def example_server_def example_player_0_def
      example_player_1_def)

text \<open>
  Claim C9. A \<open>player_hit\<close> whose target is the shooter's own identity is not rejected.
  The shooter's health is reduced by 10 and the score increased by 10 (the
  \<open>health_update\<close> broadcast carries both); when that leaves health at 0 or below, the
  player respawns with the penalty of 100 (floored at 0) and then receives the 500 points
  of a defeat.
\<close>

theorem self_hit:
  assumes d: "distinct (map fst (PLAYERS s))"
    and u: "distinct (map (\<lambda>kv. player_id (snd kv)) (PLAYERS s))"
    and p: "map_of (PLAYERS s) ws = Some p" "player_id p \<noteq> []"
    and t: "map_of data ''target_id'' = Some (JStr (player_id p))"
    and g: "get_random_open_position_on_layer s 0 = Inr (pos, g')"
  shows "\<exists>s'. handle_player_hit s ws data = (None, s') \<and>
     (Health_update (player_id p) (health p - 10) (score p + 10), map fst (PLAYERS s))
        \<in> set (outbox s') \<and>
     map_of (PLAYERS s') ws =
       Some (if health p - 10 \<le> 0
             then p\<lparr>health := 100, score := max 0 (score p + 10 - 100) + 500,
                    position := pos, layer := 0, rotation := zero_rotation\<rparr>
             else p\<lparr>health := health p - 10, score := score p + 10\<rparr>)"
proof -
  have f: "find_player s (JStr (player_id p)) = Some (ws, p)"
    unfolding find_player_def using u p(1) by (intro find_unique_id) (auto dest: map_of_SomeD)
  show ?thesis using p t f g
    by (simp add: handle_player_hit_def Let_def truthy_def respawn_player_result
        BULLET_DAMAGE_def MAX_HEALTH_def)
qed

theorem self_hit_witness:
  "\<exists>s'. handle_player_hit example_server 1 [(''target_id'', JStr ''player_1'')] = (None, s') \<and>
     (Health_update ''player_1'' 0 60, [0, 1]) \<in> set (outbox s') \<and>
     map_of (PLAYERS s') 1 =
       Some (example_player_1\<lparr>health := 100, score := 500,
               position := grid_to_world_coords 1 12 0, layer := 0,
               rotation := zero_rotation\<rparr>)"
  using self_hit[of example_server 1 example_player_1 "[(''target_id'', JStr ''player_1'')]"
      "grid_to_world_coords 1 12 0" "[11]"]
    example_random_position
  by (simp add: example_server_def example_player_0_def example_player_1_def)


section \<open>Scores\<close>

definition scores_nonneg :: "server \<Rightarrow> bool" where
  "scores_nonneg s = list_all (\<lambda>kv. 0 \<le> score (snd kv)) (PLAYERS s)"

lemma scores_nonneg_updates [simp]:
  "scores_nonneg (broadcast s m) = scores_nonneg s"
  "scores_nonneg (s\<lparr>random_state := g\<rparr>) = scores_nonneg s"
  "scores_nonneg (s\<lparr>outbox := ob\<rparr>) = scores_nonneg s"
  "scores_nonneg (s\<lparr>NEXT_PLAYER_ID := n\<rparr>) = scores_nonneg s"
  "scores_nonneg (s\<lparr>NEXT_BULLET_ID := n\<rparr>) = scores_nonneg s"
  "scores_nonneg (s\<lparr>BULLETS := bs\<rparr>) = scores_nonneg s"
  by (simp_all add: scores_nonneg_def)

lemma in_dict_set: "(k, v) \<in> set (dict_set k v kvs)"
  by (induction kvs) auto

lemma scores_nonneg_set_player:
  "scores_nonneg s \<Longrightarrow> scores_nonneg (set_player s ws p) = (0 \<le> score p)"
  using set_dict_set[of ws p "PLAYERS s"] in_dict_set[of ws p "PLAYERS s"]
  by (auto simp: scores_nonneg_def list_all_iff)

lemma scores_nonneg_lookup:
  "scores_nonneg s \<Longrightarrow> map_of (PLAYERS s) ws = Some p \<Longrightarrow> 0 \<le> score p"
  by (auto simp: scores_nonneg_def list_all_iff dest!: map_of_SomeD)

lemma scores_nonneg_find:
  "scores_nonneg s \<Longrightarrow> find_player s t = Some (ws, p) \<Longrightarrow> 0 \<le> score p"
  by (auto simp: scores_nonneg_def list_all_iff dest!: find_player_SomeD)

lemma scores_nonneg_respawn:
  assumes "scores_nonneg s"
  shows "scores_nonneg (snd (respawn_player s ws pid killer reset))"
proof (cases "map_of (PLAYERS s) ws")
  case None
  then show ?thesis using assms by (simp add: respawn_player_def)
next
  case (Some p)
  then have "0 \<le> score p" using assms scores_nonneg_lookup by blast
  then show ?thesis using assms Some
    by (simp add: respawn_player_def Let_def scores_nonneg_set_player
        split: sum.split prod.split)
qed


lemma scores_nonneg_register:
  "scores_nonneg s \<Longrightarrow> scores_nonneg (snd (register_player s ws))"
  by (simp add: register_player_def Let_def scores_nonneg_set_player
      split: sum.split prod.split option.split)

lemma scores_nonneg_unregister:
  "scores_nonneg s \<Longrightarrow> scores_nonneg (unregister_player s ws)"
  by (auto simp: unregister_player_def scores_nonneg_def dict_del_def list_all_iff broadcast_def
      split: option.splits)

lemma scores_nonneg_player_update:
  assumes "scores_nonneg s"
  shows "scores_nonneg (snd (handle_player_update rt s ws d))"
proof (cases "map_of (PLAYERS s) ws")
  case None
  then show ?thesis using assms by (simp add: handle_player_update_def)
next
  case (Some p)
  then have "0 \<le> score p" using assms scores_nonneg_lookup by blast
  then show ?thesis using assms Some
    by (simp add: handle_player_update_def Let_def scores_nonneg_set_player
        split: sum.split prod.split option.split)
qed

lemma scores_nonneg_bullet_fired:
  "scores_nonneg s \<Longrightarrow> scores_nonneg (snd (handle_bullet_fired rt s ws d))"
  by (simp add: handle_bullet_fired_def Let_def split: sum.split prod.split option.split)

lemma scores_nonneg_teleport_request:
  assumes "scores_nonneg s"
  shows "scores_nonneg (snd (handle_teleport_request s ws d))"
proof (cases "map_of (PLAYERS s) ws")
  case None
  then show ?thesis using assms by (simp add: handle_teleport_request_def)
next
  case (Some p)
  then have "0 \<le> score p" using assms scores_nonneg_lookup by blast
  then show ?thesis using assms Some
    by (simp add: handle_teleport_request_def Let_def scores_nonneg_set_player
        split: sum.split prod.split option.split)
qed

lemma scores_nonneg_teleport_to_start:
  assumes "scores_nonneg s"
  shows "scores_nonneg (snd (handle_teleport_to_start s ws))"
proof (cases "map_of (PLAYERS s) ws")
  case None
  then show ?thesis using assms by (simp add: handle_teleport_to_start_def)
next
  case (Some p)
  then have "0 \<le> score p" using assms scores_nonneg_lookup by blast
  then show ?thesis using assms Some
    by (simp add: handle_teleport_to_start_def Let_def scores_nonneg_set_player
        split: sum.split prod.split option.split)
qed

lemma scores_nonneg_reached_end:
  "scores_nonneg s \<Longrightarrow> scores_nonneg (snd (handle_player_reached_end s ws))"
  by (simp add: handle_player_reached_end_def Let_def scores_nonneg_respawn
      split: prod.split option.split)

lemma scores_nonneg_player_hit:
  assumes inv: "scores_nonneg s"
  shows "scores_nonneg (snd (handle_player_hit s ws d))"
proof -
  note [simp del] = set_player_simps broadcast_simps
  have step: "scores_nonneg (set_player s' w (q\<lparr>score := score q + n\<rparr>))"
    if "scores_nonneg s'" "map_of (PLAYERS s') w = Some q" "0 \<le> n" for s' w q n
    using that scores_nonneg_lookup[OF that(1) that(2)] by (simp add: scores_nonneg_set_player)
  have hstep: "scores_nonneg (set_player s w (q\<lparr>health := h\<rparr>))"
    if "find_player s t = Some (w, q)" for w q h t
    using that inv scores_nonneg_find[OF inv that] by (simp add: scores_nonneg_set_player)
  have resp: "scores_nonneg (set_player s2 w' (q\<lparr>score := score q + n\<rparr>))"
    if "respawn_player s1 w pid k r = (e, s2)" "scores_nonneg s1"
      "map_of (PLAYERS s2) w' = Some q" "0 \<le> n"
    for s1 s2 w pid k r e w' q n
  proof -
    have "scores_nonneg s2"
      using scores_nonneg_respawn[OF that(2), of w pid k r] that(1) by simp
    then show ?thesis using that(3,4) by (rule step)
  qed
  have resp': "scores_nonneg s2"
    if "respawn_player s1 w pid k r = (e, s2)" "scores_nonneg s1" for s1 s2 w pid k r e
    using scores_nonneg_respawn[OF that(2), of w pid k r] that(1) by simp
  show ?thesis
    using inv
    by (auto simp: handle_player_hit_def Let_def step hstep
        split: option.split prod.split intro: resp resp')
qed


lemma scores_nonneg_dispatch:
  "scores_nonneg s \<Longrightarrow> scores_nonneg (snd (dispatch rt s ws data))"
  by (simp add: dispatch_def scores_nonneg_player_update scores_nonneg_bullet_fired
      scores_nonneg_player_hit scores_nonneg_teleport_request scores_nonneg_teleport_to_start
      scores_nonneg_reached_end split: sum.split json.split)

lemma scores_nonneg_step: "scores_nonneg s \<Longrightarrow> scores_nonneg (step rt s ev)"
proof (cases ev)
  case (Connect ws)
  then show "scores_nonneg s \<Longrightarrow> ?thesis" by (simp add: scores_nonneg_register)
next
  case (Message ws data)
  assume "scores_nonneg s"
  then have "scores_nonneg (snd (dispatch rt s ws data))" by (rule scores_nonneg_dispatch)
  then show ?thesis using Message
    by (cases "dispatch rt s ws data")
       (auto simp: client_message_def scores_nonneg_unregister split: option.split)
next
  case (Disconnect ws)
  then show "scores_nonneg s \<Longrightarrow> ?thesis" by (simp add: scores_nonneg_unregister)
qed

lemma startup_no_players: "startup g = Inr s \<Longrightarrow> PLAYERS s = []"
  by (auto simp: startup_def split: sum.splits prod.splits option.splits)

text \<open>
  Claim C7. For every player and every sequence of processed events (connections,
  messages of any kind, well-formed or not, and disconnections), the player's score is
  never negative: if no score is negative before the events, none is after them. At
  startup there is no player.
\<close>

theorem score_never_negative:
  "scores_nonneg s \<Longrightarrow> scores_nonneg (run rt s evs)"
  unfolding run_def
  by (induction evs arbitrary: s) (simp_all add: scores_nonneg_step)

theorem score_never_negative_witness:
  "scores_nonneg example_server \<and>
   scores_nonneg
     (run example_runtime example_server
        [Message 0 (JObj [(''type'', JStr ''player_hit''), (''target_id'', JStr ''player_1'')]),
         Connect 2,
         Message 1 (JObj [(''type'', JStr ''teleport_to_start'')]),
         Disconnect 0])"
  using score_never_negative[of example_server example_runtime
      "[Message 0 (JObj [(''type'', JStr ''player_hit''), (''target_id'', JStr ''player_1'')]),
        Connect 2,
        Message 1 (JObj [(''type'', JStr ''teleport_to_start'')]),
        Disconnect 0]"]
  by (simp add: scores_nonneg_def example_server_def example_player_0_def example_player_1_def)



section \<open>Scanning a layer for open cells\<close>

definition maze_shape :: "int \<Rightarrow> int \<Rightarrow> maze \<Rightarrow> bool" where
  "maze_shape h w m = (int (length m) = h \<and> list_all (\<lambda>row. int (length row) = w) m)"

lemma set_grid_cells:
  "set (grid_cells h w) = {(r, c). 0 \<le> r \<and> r < h \<and> 0 \<le> c \<and> c < w}"
  by (auto simp: grid_cells_def)

lemma get_cell_in_shape:
  assumes "maze_shape h w m" "0 \<le> r" "r < h" "0 \<le> c" "c < w"
  shows "get_cell m r c = Inr (m ! nat r ! nat c)"
proof -
  have "nat r < length m" using assms by (auto simp: maze_shape_def)
  moreover from this have "int (length (m ! nat r)) = w"
    using assms(1) by (auto simp: maze_shape_def list_all_length)
  ultimately show ?thesis using assms
    by (simp add: get_cell_def py_getitem_def py_index_def maze_shape_def)
qed

lemma collect_open_filter:
  "(\<And>r c. (r, c) \<in> set cells \<Longrightarrow> \<exists>ch. get_cell m r c = Inr ch) \<Longrightarrow>
     collect_open m cells = Inr (filter (\<lambda>rc. get_cell m (fst rc) (snd rc) = Inr CHR '' '') cells)"
proof (induction cells)
  case Nil
  then show ?case by simp
next
  case (Cons rc cells)
  obtain r c where rc: "rc = (r, c)" by (cases rc)
  from Cons.prems[of r c] rc obtain ch where ch: "get_cell m r c = Inr ch" by auto
  have "collect_open m cells =
      Inr (filter (\<lambda>rc. get_cell m (fst rc) (snd rc) = Inr CHR '' '') cells)"
    using Cons.prems by (intro Cons.IH) auto
  then show ?case using rc ch by simp
qed

lemma open_spots_shape:
  assumes "maze_shape h w m"
  shows "open_spots m h w =
     Inr (filter (\<lambda>rc. get_cell m (fst rc) (snd rc) = Inr CHR '' '') (grid_cells h w))"
  unfolding open_spots_def
  using get_cell_in_shape[OF assms]
  by (intro collect_open_filter) (auto simp: set_grid_cells)

lemma choice_member:
  "xs \<noteq> [] \<Longrightarrow> \<exists>x g'. choice xs g = Inr (x, g') \<and> x \<in> set xs"
  by (cases "draw g") (simp add: choice_def)

lemma grid_round_trip:
  "world_to_grid_coords (coord_x (grid_to_world_coords r c l))
     (coord_z (grid_to_world_coords r c l)) = (r, c)"
  by (simp add: world_to_grid_coords_def grid_to_world_coords_def MAZE_WIDTH_def MAZE_HEIGHT_def
      BLOCK_SIZE_def Let_def)

lemma random_position_open:
  assumes m: "GENERATED_MAZE_DATA s = m0 # rest"
    and sh: "maze_shape MAZE_HEIGHT MAZE_WIDTH m0"
    and op: "0 \<le> r0" "r0 < MAZE_HEIGHT" "0 \<le> c0" "c0 < MAZE_WIDTH"
      "get_cell m0 r0 c0 = Inr CHR '' ''"
  shows "\<exists>sr sc g'. get_random_open_position_on_layer s 0 =
             Inr (grid_to_world_coords sr sc 0, g') \<and>
           get_cell m0 sr sc = Inr CHR '' '' \<and>
           0 \<le> sr \<and> sr < MAZE_HEIGHT \<and> 0 \<le> sc \<and> sc < MAZE_WIDTH"
proof -
  let ?spots = "filter (\<lambda>rc. get_cell m0 (fst rc) (snd rc) = Inr CHR '' '')
                  (grid_cells MAZE_HEIGHT MAZE_WIDTH)"
  have "(r0, c0) \<in> set ?spots" using op by (simp add: set_grid_cells)
  then have ne: "?spots \<noteq> []" by (metis empty_iff list.set(1))
  from choice_member[OF ne, of "random_state s"] obtain x g' where
    x: "choice ?spots (random_state s) = Inr (x, g')" "x \<in> set ?spots" by blast
  obtain sr sc where xs: "x = (sr, sc)" by (cases x)
  have "get_random_open_position_on_layer s 0 = Inr (grid_to_world_coords sr sc 0, g')"
    using m x(1) xs ne
    by (simp add: get_random_open_position_on_layer_def NUM_MAZE_LAYERS_def py_getitem_def
        py_index_def open_spots_shape[OF sh])
  moreover have "get_cell m0 sr sc = Inr CHR '' ''"
    "0 \<le> sr \<and> sr < MAZE_HEIGHT \<and> 0 \<le> sc \<and> sc < MAZE_WIDTH"
    using x(2) xs by (auto simp: set_grid_cells)
  ultimately show ?thesis by blast
qed

section \<open>Respawn and teleport to start\<close>

text \<open>
  Claim C6. Every respawn of a player leaves that player with health 100, layer 0,
  rotation (0, 0, 0) and a position that \<open>world_to_grid_coords\<close> maps to an Open cell of
  layer 0 (so to an Open or Start cell), given that layer 0, a grid of
  \<open>MAZE_HEIGHT\<close> rows and \<open>MAZE_WIDTH\<close> columns, has an Open cell; when the penalty applies
  (a killer is given and \<open>reset_score\<close> is set), the score is reduced by 100 but not below
  0, and otherwise it is unchanged.
\<close>

theorem respawn_resets_player:
  assumes p: "map_of (PLAYERS s) ws = Some p"
    and m: "GENERATED_MAZE_DATA s = m0 # rest"
    and sh: "maze_shape MAZE_HEIGHT MAZE_WIDTH m0"
    and op: "0 \<le> r0" "r0 < MAZE_HEIGHT" "0 \<le> c0" "c0 < MAZE_WIDTH"
      "get_cell m0 r0 c0 = Inr CHR '' ''"
  shows "\<exists>s' p'. respawn_player s ws pid killer reset = (None, s') \<and>
     map_of (PLAYERS s') ws = Some p' \<and>
     health p' = 100 \<and> layer p' = 0 \<and> rotation p' = zero_rotation \<and>
     (case world_to_grid_coords (coord_x (position p')) (coord_z (position p')) of
        (r, c) \<Rightarrow> get_cell m0 r c = Inr CHR '' '') \<and>
     score p' = (if killer \<noteq> None \<and> killer \<noteq> Some [] \<and> reset
                 then max 0 (score p - 100) else score p)"
proof -
  from random_position_open[OF m sh op] obtain sr sc g' where
    g: "get_random_open_position_on_layer s 0 = Inr (grid_to_world_coords sr sc 0, g')"
    and c: "get_cell m0 sr sc = Inr CHR '' ''" by blast
  show ?thesis
    using c by (simp add: respawn_player_result[OF p g] Let_def grid_round_trip MAX_HEALTH_def)
qed

lemma example_shape: "maze_shape MAZE_HEIGHT MAZE_WIDTH example_layer_0"
  by (simp add: maze_shape_def MAZE_HEIGHT_def MAZE_WIDTH_def example_layer_0_def)

lemma example_open_cell: "get_cell example_layer_0 1 3 = Inr CHR '' ''"
  by (simp add: get_cell_def py_getitem_def py_index_def example_layer_0_def)

theorem respawn_resets_player_witness:
  "\<exists>s' p'. respawn_player example_server 1 ''player_1'' (Some ''player_0'') True = (None, s') \<and>
     map_of (PLAYERS s') 1 = Some p' \<and>
     health p' = 100 \<and> layer p' = 0 \<and> rotation p' = zero_rotation \<and>
     (case world_to_grid_coords (coord_x (position p')) (coord_z (position p')) of
        (r, c) \<Rightarrow> get_cell example_layer_0 r c = Inr CHR '' '') \<and>
     score p' = 0"
  using respawn_resets_player[of example_server 1 example_player_1 example_layer_0
      "[example_layer_1]" 1 3 "''player_1''" "Some ''player_0''" True]
    example_shape example_open_cell
  by (simp add: example_server_def example_generator_def GENERATED_MAZE_DATA_def
      example_player_1_def MAZE_HEIGHT_def MAZE_WIDTH_def)





section \<open>Malformed events\<close>

text \<open>
  Claim C2 says that a malformed event is dropped and the sender's connection stays open.
  \<open>handle_player_hit\<close> and \<open>handle_teleport_request\<close> do that, but
  \<open>handle_bullet_fired\<close> does not: a \<open>bullet_fired\<close> message without \<open>start_position\<close>
  raises \<^verbatim>\<open>KeyError\<close> after the bullet counter was incremented; the exception ends the
  loop of \<open>handle_client_messages\<close>, the sender is unregistered and the other players are
  told that it disconnected. Evaluated on the concrete state, for \<open>player_0\<close>; a hit on an
  unknown target, for comparison, leaves the state as it was and the loop running.
\<close>

theorem bullet_fired_without_fields_disconnects:
  "client_message example_runtime example_server 0 (JObj [(''type'', JStr ''bullet_fired'')]) =
     (False,
      example_server\<lparr>PLAYERS := [(1, example_player_1)], NEXT_BULLET_ID := 1,
                       outbox := [(Player_disconnected ''player_0'', [1])]\<rparr>) \<and>
   client_message example_runtime example_server 0
       (JObj [(''type'', JStr ''player_hit''), (''target_id'', JStr ''nobody'')]) =
     (True, example_server)"
  by (simp add: client_message_def dispatch_def py_subscript_def handle_bullet_fired_def Let_def
      unregister_player_def dict_del_def broadcast_def handle_player_hit_def truthy_def
      find_player_def example_server_def example_player_0_def example_player_1_def)

section \<open>Unvalidated layer and position\<close>









section \<open>What carving does to a layer\<close>


















section \<open>Counting cells\<close>










section \<open>A freshly carved layer\<close>







section \<open>Relabelling an open cell\<close>




section \<open>Labels on the layers of a maze set\<close>



















section \<open>Start, end and teleporters of a generated maze set\<close>




section \<open>Teleport requests\<close>





end
